theory Spec2Isabelle
  imports Main "HOL-Library.Word"
begin

unbundle bit_operations_syntax

section \<open>Types, values and the host environment\<close>

text \<open>
  \<^verbatim>\<open>quick/hash.hpp\<close> selects a hashing rule per C++ type by template specialisation
  of \<^verbatim>\<open>hash_impl<T>\<close>. The types it distinguishes are the datatype \<open>ty\<close>; a value is
  what a hasher reads of an object: the payload of a primitive, the underlying integer
  of an enumerator, an opaque class object, the iteration sequence of a container
  (\<^verbatim>\<open>for (auto& e : input)\<close>), the two components of a pair, the elements of a tuple.
\<close>

type_synonym size_t = "64 word"

datatype ty =
    TPrim string
  | TEnum string
  | TClass string
  | TVector ty
  | TList ty
  | TSet ty
  | TMap ty ty
  | TPair ty ty
  | TTuple "ty list"

datatype ('p, 'o) val =
    VPrim 'p
  | VEnum int
  | VObj 'o
  | VSeq "('p, 'o) val list"
  | VMap "(('p, 'o) val \<times> ('p, 'o) val) list"
  | VPair "('p, 'o) val" "('p, 'o) val"
  | VTuple "('p, 'o) val list"

text \<open>
  What the header takes from outside itself:
  \<^item> \<open>hash_combine seed v\<close>: the seed that \<^verbatim>\<open>boost::hash_combine(seed, v)\<close> leaves
    behind for a \<^verbatim>\<open>std::size_t\<close> argument \<open>v\<close>;
  \<^item> \<open>std_hash T\<close>: \<^verbatim>\<open>std::hash<T>\<close> of a primitive type, which the primary template
    \<^verbatim>\<open>hash_impl<T>\<close> inherits, and \<open>std_hash_size_t\<close>, the same for \<^verbatim>\<open>std::size_t\<close>
    itself (\<^verbatim>\<open>hash_impl<size_t>()\<close> in \<^verbatim>\<open>OrderedSequenceHash\<close>);
  \<^item> \<open>GetHash T\<close>: what \<^verbatim>\<open>t.GetHash()\<close> returns, for a class that has a member function
    \<^verbatim>\<open>GetHash\<close> callable without arguments; \<open>GetHash_unique T\<close>: whether the name
    \<^verbatim>\<open>T::GetHash\<close> denotes one member that is not a template, so that the expression
    \<^verbatim>\<open>&T::GetHash\<close> is well-formed (it is not for an overloaded \<^verbatim>\<open>GetHash\<close>); and
    \<open>std_hash_class T\<close>: a specialisation of \<^verbatim>\<open>std::hash<T>\<close> for a class;
  \<^item> \<open>convert V K\<close>: the implicit conversion C++ applies when an lvalue of type \<open>V\<close>
    is passed for a parameter of type \<^verbatim>\<open>const K&\<close>.
\<close>

record ('p, 'o) host =
  hash_combine :: "size_t \<Rightarrow> size_t \<Rightarrow> size_t"
  std_hash :: "string \<Rightarrow> 'p \<Rightarrow> size_t"
  std_hash_size_t :: "size_t \<Rightarrow> size_t"
  GetHash :: "string \<Rightarrow> ('o \<Rightarrow> size_t) option"
  GetHash_unique :: "string \<Rightarrow> bool"
  std_hash_class :: "string \<Rightarrow> 'o \<Rightarrow> size_t"
  convert :: "ty \<Rightarrow> ty \<Rightarrow> ('p, 'o) val \<Rightarrow> ('p, 'o) val"

section \<open>The hashing templates\<close>

text \<open>
  A function template over a type with a hasher becomes a function that takes the
  hasher \<^verbatim>\<open>hash_impl<T>()\<close> as an argument.

  \<^verbatim>\<open>
  size_t hash = hash_impl<size_t>()(input.size());
  for (auto& e : input) { boost::hash_combine(hash, hasher(e)); }
  return hash;
  \<close>
\<close>

definition OrderedSequenceHash ::
  "('p, 'o) host \<Rightarrow> ('a \<Rightarrow> size_t) \<Rightarrow> 'a list \<Rightarrow> size_t" where
  "OrderedSequenceHash H hasher input =
     fold (\<lambda>e hash. hash_combine H hash (hasher e)) input
       (std_hash_size_t H (of_nat (length input)))"

text \<open>
  \<^verbatim>\<open>
  size_t hash = 0;
  for (auto& e : input) {
    boost::hash_combine(hash, key_hasher(e.first));
    boost::hash_combine(hash, key_hasher(e.second));
  }
  \<close>
  \<open>value_hasher\<close> is constructed and never called: \<open>e.second\<close>, of the mapped type, goes
  to \<open>key_hasher\<close>, whose parameter is \<^verbatim>\<open>const key_type&\<close>; \<open>to_key\<close> is the conversion
  that call performs (none when the two types are the same).
\<close>

definition OrderedMapHash ::
  "('p, 'o) host \<Rightarrow> ('k \<Rightarrow> size_t) \<Rightarrow> ('v \<Rightarrow> size_t) \<Rightarrow> ('v \<Rightarrow> 'k) \<Rightarrow>
     ('k \<times> 'v) list \<Rightarrow> size_t" where
  "OrderedMapHash H key_hasher value_hasher to_key input =
     fold (\<lambda>e hash.
            hash_combine H (hash_combine H hash (key_hasher (fst e)))
              (key_hasher (to_key (snd e))))
       input 0"

text \<open>
  \<^verbatim>\<open>
  auto hash1 = hash_impl<T1>()(p.first);
  auto hash2 = hash_impl<T2>()(p.second);
  boost::hash_combine(hash1, hash2);
  return hash1;
  \<close>
\<close>

definition PairHash ::
  "('p, 'o) host \<Rightarrow> ('a \<Rightarrow> size_t) \<Rightarrow> ('b \<Rightarrow> size_t) \<Rightarrow> 'a \<times> 'b \<Rightarrow> size_t" where
  "PairHash H hasher1 hasher2 p =
     (let hash1 = hasher1 (fst p); hash2 = hasher2 (snd p)
      in hash_combine H hash1 hash2)"

text \<open>
  The pack expansion of \<^verbatim>\<open>TupleHashImplHelper\<close> applies the hasher of the element
  type at each index to the element at that index, in index order, and hands the
  vector of results to \<^verbatim>\<open>OrderedSequenceHash\<close>, whose element hasher is then
  \<^verbatim>\<open>hash_impl<size_t>\<close>.
\<close>

definition TupleHashImplHelper ::
  "('p, 'o) host \<Rightarrow> ('a \<Rightarrow> size_t) list \<Rightarrow> 'a list \<Rightarrow> size_t" where
  "TupleHashImplHelper H hashers input =
     (let hashed_elements = map (\<lambda>(hasher, x). hasher x) (zip hashers input)
      in OrderedSequenceHash H (std_hash_size_t H) hashed_elements)"

definition TupleHash ::
  "('p, 'o) host \<Rightarrow> ('a \<Rightarrow> size_t) list \<Rightarrow> 'a list \<Rightarrow> size_t" where
  "TupleHash H hashers input = TupleHashImplHelper H hashers input"

section \<open>The dispatcher\<close>

text \<open>
  \<open>hash_impl H T\<close> is the call operator of \<^verbatim>\<open>hash_impl<T>\<close>, one equation per
  specialisation. The static type of the argument of \<^verbatim>\<open>hash_impl<T>::operator()\<close> is
  \<open>T\<close>, so no program reaches the last equation: it only makes the function total.

  The specialisation for classes is
  \<^verbatim>\<open>hash_impl<T, void_t<decltype(&T::GetHash)>>\<close>: it is chosen where \<^verbatim>\<open>&T::GetHash\<close> is
  well-formed, and returns \<^verbatim>\<open>t.GetHash()\<close>. Where the substitution fails, the primary
  template is left, which inherits \<^verbatim>\<open>std::hash<T>\<close>.
\<close>

fun hash_impl :: "('p, 'o) host \<Rightarrow> ty \<Rightarrow> ('p, 'o) val \<Rightarrow> size_t" where
  "hash_impl H (TVector T) (VSeq t) = OrderedSequenceHash H (hash_impl H T) t"
| "hash_impl H (TList T) (VSeq t) = OrderedSequenceHash H (hash_impl H T) t"
| "hash_impl H (TSet T) (VSeq t) = OrderedSequenceHash H (hash_impl H T) t"
| "hash_impl H (TMap K V) (VMap t) =
     OrderedMapHash H (hash_impl H K) (hash_impl H V)
       (if V = K then (\<lambda>v. v) else convert H V K) t"
| "hash_impl H (TPair T1 T2) (VPair a b) =
     PairHash H (hash_impl H T1) (hash_impl H T2) (a, b)"
| "hash_impl H (TTuple Ts) (VTuple t) = TupleHash H (map (hash_impl H) Ts) t"
| "hash_impl H (TEnum n) (VEnum t) = word_of_int t"
| "hash_impl H (TClass n) (VObj t) =
     (case GetHash H n of
        Some get_hash \<Rightarrow> if GetHash_unique H n then get_hash t else std_hash_class H n t
      | None \<Rightarrow> std_hash_class H n t)"
| "hash_impl H (TPrim n) (VPrim t) = std_hash H n t"
| "hash_impl H _ _ = 0"

text \<open>\<^verbatim>\<open>template<typename T> struct hash: public detail_hash_impl::hash_impl<T> {};\<close>\<close>

definition quick_hash :: "('p, 'o) host \<Rightarrow> ty \<Rightarrow> ('p, 'o) val \<Rightarrow> size_t" where
  "quick_hash H T input = hash_impl H T input"

section \<open>The variadic entry point\<close>

text \<open>
  The three overloads of \<^verbatim>\<open>HashFunction\<close>, chosen by the number of arguments; an
  argument is a value with its static type.
  \<^verbatim>\<open>
  inline std::size_t HashFunction() { return 0; }
  template<typename T>
  inline std::size_t HashFunction(const T& input) { return quick::hash<T>()(input); }
  template<typename T1, typename T2, typename... Ts>
  inline std::size_t HashFunction(const T1& i1, const T2& i2, const Ts&... is) {
    size_t hash = quick::HashFunction(i1);
    boost::hash_combine(hash, quick::HashFunction(i2));
    (void)std::initializer_list<int>{(boost::hash_combine(hash, quick::HashFunction(is)), 0)...};
    return hash;
  }
  \<close>
  The elements of a braced initializer list are evaluated in the order they are written,
  so the pack expansion combines the remaining arguments from left to right.
\<close>

fun HashFunction :: "('p, 'o) host \<Rightarrow> (ty \<times> ('p, 'o) val) list \<Rightarrow> size_t" where
  "HashFunction H [] = 0"
| "HashFunction H [(T, input)] = quick_hash H T input"
| "HashFunction H (i1 # i2 # rest) =
     (let hash = HashFunction H [i1];
          hash = hash_combine H hash (HashFunction H [i2])
      in fold (\<lambda>i hash. hash_combine H hash (HashFunction H [i])) rest hash)"

section \<open>A host to evaluate on\<close>

text \<open>
  A concrete host for closed evaluation: the combiner is the formula of
  \<^verbatim>\<open>boost::hash_combine\<close>, \<^verbatim>\<open>seed ^= v + 0x9e3779b9 + (seed << 6) + (seed >> 2)\<close>, on
  64-bit words; \<^verbatim>\<open>std::hash\<close> of an integral type (\<^verbatim>\<open>bool\<close>, \<^verbatim>\<open>int\<close>, \<^verbatim>\<open>size_t\<close>) is
  the cast to \<^verbatim>\<open>size_t\<close>, as in libstdc++ and libc++; primitive values are integers; the
  conversion from \<^verbatim>\<open>int\<close> to \<^verbatim>\<open>bool\<close> is \<^verbatim>\<open>v != 0\<close>. Three classes declare
  \<^verbatim>\<open>GetHash\<close>, each over two \<^verbatim>\<open>int\<close> fields:
  \<^item> \<^verbatim>\<open>Point\<close> combines both fields, as \<^verbatim>\<open>qk::HashFunction(x, y)\<close> does;
  \<^item> \<^verbatim>\<open>Entry\<close> hashes its first field only, the one its \<^verbatim>\<open>operator==\<close> compares, and
    has a conversion \<^verbatim>\<open>operator int() const\<close> that returns its second field;
  \<^item> \<^verbatim>\<open>Multi\<close> has the \<^verbatim>\<open>GetHash() const\<close> of \<^verbatim>\<open>Point\<close> and a second overload
    \<^verbatim>\<open>GetHash(int) const\<close>, and a specialisation of \<^verbatim>\<open>std::hash<Multi>\<close> that hashes the
    first field.
\<close>

definition boost_hash_combine :: "size_t \<Rightarrow> size_t \<Rightarrow> size_t" where
  "boost_hash_combine seed v =
     seed XOR (v + 0x9e3779b9 + push_bit 6 seed + drop_bit 2 seed)"

definition combine_fields :: "int \<times> int \<Rightarrow> size_t" where
  "combine_fields t = boost_hash_combine (word_of_int (fst t)) (word_of_int (snd t))"

fun example_convert :: "ty \<Rightarrow> ty \<Rightarrow> (int, int \<times> int) val \<Rightarrow> (int, int \<times> int) val" where
  "example_convert V K (VPrim x) =
     (if K = TPrim ''bool'' then VPrim (if x = 0 then 0 else 1) else VPrim x)"
| "example_convert V K (VObj t) =
     (if V = TClass ''Entry'' \<and> K = TPrim ''int'' then VPrim (snd t) else VObj t)"
| "example_convert V K v = v"

definition example_host :: "(int, int \<times> int) host" where
  "example_host =
     \<lparr> hash_combine = boost_hash_combine,
       std_hash = (\<lambda>T x. word_of_int x),
       std_hash_size_t = (\<lambda>x. x),
       GetHash = (\<lambda>T.
          if T = ''Point'' \<or> T = ''Multi'' then Some combine_fields
          else if T = ''Entry'' then Some (\<lambda>t. word_of_int (fst t))
          else None),
       GetHash_unique = (\<lambda>T. T \<noteq> ''Multi''),
       std_hash_class = (\<lambda>T t. if T = ''Multi'' then word_of_int (fst t) else 0),
       convert = example_convert \<rparr>"

section \<open>The composite rules in the words of the specification\<close>

text \<open>
  For the refinement of the tuple rule: the Sequence Hasher as the specification words
  it (seed with the hash of the length; for each element in iteration order, combine the
  seed with the hash of the element), and the Pair/Tuple Hasher (hash each element by the
  rule of its own type, collect the hashes in positional order, apply the Sequence
  Hasher's fold to that list, whose elements are hash values).
\<close>

fun Sequence_Hasher_fold_spec ::
  "('p, 'o) host \<Rightarrow> ('a \<Rightarrow> size_t) \<Rightarrow> size_t \<Rightarrow> 'a list \<Rightarrow> size_t" where
  "Sequence_Hasher_fold_spec H Hash seed [] = seed"
| "Sequence_Hasher_fold_spec H Hash seed (e # seq) =
     Sequence_Hasher_fold_spec H Hash (hash_combine H seed (Hash e)) seq"

definition Sequence_Hasher_spec ::
  "('p, 'o) host \<Rightarrow> ('a \<Rightarrow> size_t) \<Rightarrow> 'a list \<Rightarrow> size_t" where
  "Sequence_Hasher_spec H Hash seq =
     Sequence_Hasher_fold_spec H Hash (std_hash_size_t H (of_nat (length seq))) seq"

fun element_hashes_spec ::
  "('p, 'o) host \<Rightarrow> ty list \<Rightarrow> ('p, 'o) val list \<Rightarrow> size_t list" where
  "element_hashes_spec H (T # Ts) (e # es) = quick_hash H T e # element_hashes_spec H Ts es"
| "element_hashes_spec H _ _ = []"

definition Tuple_Hasher_spec ::
  "('p, 'o) host \<Rightarrow> ty list \<Rightarrow> ('p, 'o) val list \<Rightarrow> size_t" where
  "Tuple_Hasher_spec H Ts t =
     Sequence_Hasher_spec H (std_hash_size_t H) (element_hashes_spec H Ts t)"

section \<open>Equality of values\<close>

text \<open>
  \<^verbatim>\<open>operator==\<close> at each type, for the consistency law
  (\<^verbatim>\<open>a == b  ===>  hash(a) == hash(b)\<close>): the host's on primitives and classes, that of
  the underlying integers on enumerators, and the standard library's on containers,
  pairs and tuples (equal sizes and pairwise equal elements, in iteration order).
\<close>

record ('p, 'o) equality =
  prim_eq :: "string \<Rightarrow> 'p \<Rightarrow> 'p \<Rightarrow> bool"
  class_eq :: "string \<Rightarrow> 'o \<Rightarrow> 'o \<Rightarrow> bool"

fun val_eq :: "('p, 'o) equality \<Rightarrow> ty \<Rightarrow> ('p, 'o) val \<Rightarrow> ('p, 'o) val \<Rightarrow> bool" where
  "val_eq E (TPrim n) a b =
     (case (a, b) of (VPrim x, VPrim y) \<Rightarrow> prim_eq E n x y | _ \<Rightarrow> False)"
| "val_eq E (TEnum n) a b =
     (case (a, b) of (VEnum x, VEnum y) \<Rightarrow> x = y | _ \<Rightarrow> False)"
| "val_eq E (TClass n) a b =
     (case (a, b) of (VObj x, VObj y) \<Rightarrow> class_eq E n x y | _ \<Rightarrow> False)"
| "val_eq E (TVector T) a b =
     (case (a, b) of (VSeq xs, VSeq ys) \<Rightarrow> list_all2 (val_eq E T) xs ys | _ \<Rightarrow> False)"
| "val_eq E (TList T) a b =
     (case (a, b) of (VSeq xs, VSeq ys) \<Rightarrow> list_all2 (val_eq E T) xs ys | _ \<Rightarrow> False)"
| "val_eq E (TSet T) a b =
     (case (a, b) of (VSeq xs, VSeq ys) \<Rightarrow> list_all2 (val_eq E T) xs ys | _ \<Rightarrow> False)"
| "val_eq E (TMap K V) a b =
     (case (a, b) of
        (VMap xs, VMap ys) \<Rightarrow>
          list_all2 (\<lambda>x y. val_eq E K (fst x) (fst y) \<and> val_eq E V (snd x) (snd y)) xs ys
      | _ \<Rightarrow> False)"
| "val_eq E (TPair T1 T2) a b =
     (case (a, b) of
        (VPair x1 x2, VPair y1 y2) \<Rightarrow> val_eq E T1 x1 y1 \<and> val_eq E T2 x2 y2
      | _ \<Rightarrow> False)"
| "val_eq E (TTuple Ts) a b =
     (case (a, b) of
        (VTuple xs, VTuple ys) \<Rightarrow>
          length xs = length Ts \<and> length ys = length Ts \<and>
          list_all (\<lambda>(eq, x, y). eq x y) (zip (map (val_eq E) Ts) (zip xs ys))
      | _ \<Rightarrow> False)"

text \<open>
  What the header asks of the host: \<^verbatim>\<open>std::hash\<close> and a class's \<^verbatim>\<open>GetHash\<close> return
  equal hashes on equal objects (Warning-1 of the header for \<^verbatim>\<open>GetHash\<close>); this is
  \<open>hashers_respect\<close>. It is not enough for maps: \<^verbatim>\<open>key_hasher(e.second)\<close> hashes the
  converted value, so equal maps have equal hashes only where, for a mapped type other
  than the key type, that conversion takes equal values to equal values; this is
  \<open>conversions_respect\<close>.
\<close>

definition hashers_respect :: "('p, 'o) host \<Rightarrow> ('p, 'o) equality \<Rightarrow> bool" where
  "hashers_respect H E \<longleftrightarrow>
     (\<forall>n x y. prim_eq E n x y \<longrightarrow> std_hash H n x = std_hash H n y) \<and>
     (\<forall>n x y g. class_eq E n x y \<longrightarrow> GetHash H n = Some g \<longrightarrow> GetHash_unique H n \<longrightarrow>
        g x = g y) \<and>
     (\<forall>n x y. class_eq E n x y \<longrightarrow> (GetHash H n = None \<or> \<not> GetHash_unique H n) \<longrightarrow>
        std_hash_class H n x = std_hash_class H n y)"

fun conversions_respect :: "('p, 'o) host \<Rightarrow> ('p, 'o) equality \<Rightarrow> ty \<Rightarrow> bool" where
  "conversions_respect H E (TVector T) = conversions_respect H E T"
| "conversions_respect H E (TList T) = conversions_respect H E T"
| "conversions_respect H E (TSet T) = conversions_respect H E T"
| "conversions_respect H E (TMap K V) =
     (conversions_respect H E K \<and>
      (V = K \<or> (\<forall>x y. val_eq E V x y \<longrightarrow> val_eq E K (convert H V K x) (convert H V K y))))"
| "conversions_respect H E (TPair T1 T2) =
     (conversions_respect H E T1 \<and> conversions_respect H E T2)"
| "conversions_respect H E (TTuple Ts) = list_all (conversions_respect H E) Ts"
| "conversions_respect H E _ = True"

text \<open>The equality operators that go with \<open>example_host\<close>.\<close>

definition example_equality :: "(int, int \<times> int) equality" where
  "example_equality =
     \<lparr> prim_eq = (\<lambda>T x y. x = y),
       class_eq = (\<lambda>T x y. if T = ''Entry'' then fst x = fst y else x = y) \<rparr>"

section \<open>The loops as left folds\<close>

lemma OrderedSequenceHash_foldl:
  "OrderedSequenceHash H hasher input =
     foldl (\<lambda>seed e. hash_combine H seed (hasher e))
       (std_hash_size_t H (of_nat (length input))) input"
  by (simp add: OrderedSequenceHash_def foldl_conv_fold)

lemma OrderedMapHash_foldl:
  "OrderedMapHash H key_hasher value_hasher to_key input =
     foldl (\<lambda>seed e. hash_combine H (hash_combine H seed (key_hasher (fst e)))
                       (key_hasher (to_key (snd e)))) 0 input"
  by (simp add: OrderedMapHash_def foldl_conv_fold)

lemma fold_combine_foldl:
  "fold (\<lambda>i hash. hash_combine H hash (f i)) rest s = foldl (hash_combine H) s (map f rest)"
  by (induction rest arbitrary: s) simp_all

section \<open>Sequences\<close>

text \<open>
  C3. For a \<^verbatim>\<open>std::vector\<close>, a \<^verbatim>\<open>std::list\<close> and a \<^verbatim>\<open>std::set\<close>, the hash is the left
  fold over the elements in iteration order that starts from the primitive hash of the
  element count and combines the seed with the hash of each element; so the empty
  sequence hashes to the primitive hash of zero.
\<close>

theorem sequence_hash_length_seeded_fold:
  "quick_hash H (TVector T) (VSeq seq) =
     foldl (\<lambda>seed e. hash_combine H seed (quick_hash H T e))
       (std_hash_size_t H (of_nat (length seq))) seq
   \<and> quick_hash H (TList T) (VSeq seq) =
     foldl (\<lambda>seed e. hash_combine H seed (quick_hash H T e))
       (std_hash_size_t H (of_nat (length seq))) seq
   \<and> quick_hash H (TSet T) (VSeq seq) =
     foldl (\<lambda>seed e. hash_combine H seed (quick_hash H T e))
       (std_hash_size_t H (of_nat (length seq))) seq
   \<and> quick_hash H (TVector T) (VSeq []) = std_hash_size_t H 0
   \<and> quick_hash H (TList T) (VSeq []) = std_hash_size_t H 0
   \<and> quick_hash H (TSet T) (VSeq []) = std_hash_size_t H 0"
  unfolding quick_hash_def hash_impl.simps OrderedSequenceHash_foldl
  by (simp add: quick_hash_def [abs_def])

section \<open>Maps\<close>

text \<open>
  What \<^verbatim>\<open>OrderedMapHash\<close> computes: per entry, the key's hash and then the hash, by the
  key type's rule, of the mapped value converted to the key type.
\<close>

lemma map_hash_by_key_rule:
  "quick_hash H (TMap K V) (VMap m) =
     foldl (\<lambda>seed e.
              hash_combine H (hash_combine H seed (quick_hash H K (fst e)))
                (quick_hash H K ((if V = K then (\<lambda>v. v) else convert H V K) (snd e))))
       0 m"
  unfolding quick_hash_def hash_impl.simps OrderedMapHash_foldl
  by (simp add: quick_hash_def [abs_def])

text \<open>Where the mapped type is the key type, that is the rule of the mapped type too.\<close>

lemma map_hash_same_types:
  "quick_hash H (TMap K K) (VMap m) =
     foldl (\<lambda>seed e.
              hash_combine H (hash_combine H seed (quick_hash H K (fst e)))
                (quick_hash H K (snd e)))
       0 m"
  by (simp add: map_hash_by_key_rule)

text \<open>
  C1 claims that each entry contributes the key's hash by the key type's rule and then the
  value's hash by the mapped type's rule. On \<^verbatim>\<open>std::map<bool, int>{{true, 2}}\<close> the code
  gives the first number below: the value 2 reaches \<^verbatim>\<open>hash_impl<bool>\<close> as \<open>true\<close> and
  contributes 1. The fold the claim describes gives the second: there the value
  contributes \<^verbatim>\<open>std::hash<int>\<close> of 2.
\<close>

theorem map_value_hashed_by_key_rule:
  "quick_hash example_host (TMap (TPrim ''bool'') (TPrim ''int'')) (VMap [(VPrim 1, VPrim 2)])
     = 175247769362
   \<and> foldl (\<lambda>seed e.
        hash_combine example_host
          (hash_combine example_host seed (quick_hash example_host (TPrim ''bool'') (fst e)))
          (quick_hash example_host (TPrim ''int'') (snd e)))
      0 [(VPrim 1, VPrim 2)]
     = 175247769363"
  by (simp add: quick_hash_def OrderedMapHash_def example_host_def boost_hash_combine_def)

text \<open>
  C10. The hash of an empty \<^verbatim>\<open>std::map\<close> is 0 for every key and mapped type: the
  accumulator starts at 0 and no entry changes it. It is the value of \<^verbatim>\<open>HashFunction()\<close>.
\<close>

theorem empty_map_hashes_to_zero:
  "quick_hash H (TMap K V) (VMap []) = 0
   \<and> quick_hash H (TMap K V) (VMap []) = HashFunction H []"
  by (simp add: quick_hash_def OrderedMapHash_def)

section \<open>Pairs\<close>

text \<open>
  C2, as amended. The hash of a \<^verbatim>\<open>std::pair\<close> is the hash of its first component, by
  the rule of that component's type, combined with the hash of its second component, by
  the rule of its type. The first hash is the seed: no hash of a length enters.
\<close>

theorem pair_hash_combines_components:
  "quick_hash H (TPair T1 T2) (VPair a b) =
     hash_combine H (quick_hash H T1 a) (quick_hash H T2 b)"
  by (simp add: quick_hash_def PairHash_def)

text \<open>
  C2 as stated fails: on \<^verbatim>\<open>std::pair<int, int>(1, 2)\<close> the hash is not the fold that
  starts from the hash of 2 and combines the two component hashes in order.
\<close>

theorem pair_hash_not_length_seeded:
  "quick_hash example_host (TPair (TPrim ''int'') (TPrim ''int'')) (VPair (VPrim 1) (VPrim 2))
   \<noteq> foldl (hash_combine example_host) (std_hash_size_t example_host 2)
        [quick_hash example_host (TPrim ''int'') (VPrim 1),
         quick_hash example_host (TPrim ''int'') (VPrim 2)]"
  by (simp add: quick_hash_def PairHash_def example_host_def boost_hash_combine_def)

text \<open>
  C9. Hashing a pair gives the value of \<^verbatim>\<open>HashFunction(p.first, p.second)\<close>; both are
  the first component's hash combined with the second's, without a length seed.
\<close>

theorem pair_hash_eq_HashFunction:
  "quick_hash H (TPair T1 T2) (VPair a b) = HashFunction H [(T1, a), (T2, b)]
   \<and> HashFunction H [(T1, a), (T2, b)] =
       hash_combine H (quick_hash H T1 a) (quick_hash H T2 b)"
  by (simp add: quick_hash_def PairHash_def)

section \<open>Tuples\<close>

lemma Sequence_Hasher_fold_spec_fold:
  "Sequence_Hasher_fold_spec H Hash seed seq =
     fold (\<lambda>e hash. hash_combine H hash (Hash e)) seq seed"
  by (induction seq arbitrary: seed) simp_all

lemma OrderedSequenceHash_spec:
  "OrderedSequenceHash H hasher input = Sequence_Hasher_spec H hasher input"
  by (simp add: OrderedSequenceHash_def Sequence_Hasher_spec_def Sequence_Hasher_fold_spec_fold)

lemma hashed_elements_spec:
  "map (\<lambda>(hasher, x). hasher x) (zip (map (hash_impl H) Ts) t) = element_hashes_spec H Ts t"
proof (induction Ts arbitrary: t)
  case Nil
  then show ?case by simp
next
  case (Cons T Ts)
  then show ?case by (cases t) (simp_all add: quick_hash_def)
qed

text \<open>
  C4. The hash of a \<^verbatim>\<open>std::tuple\<close> is the Sequence Hasher's length-seeded fold over the
  list of its elements' hashes, each computed by the rule of the element's own type:
  the code refines the specification's Tuple Hasher, and its value is
  \<^verbatim>\<open>OrderedSequenceHash\<close> of that list.
\<close>

theorem tuple_hash_refines_spec:
  "quick_hash H (TTuple Ts) (VTuple t) = Tuple_Hasher_spec H Ts t
   \<and> quick_hash H (TTuple Ts) (VTuple t) =
       OrderedSequenceHash H (std_hash_size_t H) (element_hashes_spec H Ts t)"
  by (simp add: quick_hash_def TupleHash_def TupleHashImplHelper_def hashed_elements_spec
      Tuple_Hasher_spec_def OrderedSequenceHash_spec)

section \<open>Classes with \<^verbatim>\<open>GetHash\<close>\<close>

text \<open>
  C8, as amended. For a class with a \<^verbatim>\<open>GetHash\<close> member function that is neither
  overloaded nor a template, so that \<^verbatim>\<open>&T::GetHash\<close> is well-formed, the hash of an
  object is what \<^verbatim>\<open>t.GetHash()\<close> returns, whatever \<^verbatim>\<open>std::hash\<close> would give for the
  class.
\<close>

theorem unique_GetHash_is_the_hash:
  "GetHash H T = Some get_hash \<Longrightarrow> GetHash_unique H T \<Longrightarrow>
     quick_hash H (TClass T) (VObj t) = get_hash t"
  by (simp add: quick_hash_def)

theorem unique_GetHash_is_the_hash_Point:
  "quick_hash example_host (TClass ''Point'') (VObj (3, 4)) = boost_hash_combine 3 4"
  using unique_GetHash_is_the_hash [of example_host "''Point''" combine_fields "(3, 4)"]
  by (simp add: example_host_def combine_fields_def)

text \<open>
  C8 as stated fails: \<^verbatim>\<open>Multi\<close> exposes \<^verbatim>\<open>GetHash\<close>, and the hash of the object with
  fields 3 and 4 is not what its \<^verbatim>\<open>GetHash()\<close> returns, 2654435966, but what
  \<^verbatim>\<open>std::hash<Multi>\<close> returns, 3.
\<close>

theorem overloaded_GetHash_not_used:
  "GetHash example_host ''Multi'' = Some combine_fields
   \<and> quick_hash example_host (TClass ''Multi'') (VObj (3, 4)) \<noteq> combine_fields (3, 4)
   \<and> combine_fields (3, 4) = 2654435966
   \<and> quick_hash example_host (TClass ''Multi'') (VObj (3, 4)) = 3"
  by (simp add: quick_hash_def example_host_def combine_fields_def boost_hash_combine_def)

text \<open>Where the detection fails, the hash is that of the primary template.\<close>

lemma undetected_GetHash_falls_back:
  "\<not> GetHash_unique H T \<Longrightarrow> quick_hash H (TClass T) (VObj t) = std_hash_class H T t"
  by (simp add: quick_hash_def split: option.splits)

section \<open>The variadic entry point\<close>

text \<open>
  C6. With two or more arguments \<^verbatim>\<open>HashFunction\<close> is the left fold of the combiner over
  the arguments' hashes in argument order, starting from the hash of the first; each
  hash is computed by the rule of that argument's type. With one argument it is the
  hash of the argument.
\<close>

theorem HashFunction_left_fold:
  "HashFunction H (v1 # v2 # vs) =
     foldl (hash_combine H) (quick_hash H (fst v1) (snd v1))
       (map (\<lambda>v. quick_hash H (fst v) (snd v)) (v2 # vs))
   \<and> HashFunction H [v] = quick_hash H (fst v) (snd v)"
proof -
  have one: "HashFunction H [w] = quick_hash H (fst w) (snd w)" for w
    by (cases w) simp
  have "HashFunction H (v1 # v2 # vs) =
     foldl (hash_combine H) (quick_hash H (fst v1) (snd v1))
       (map (\<lambda>v. quick_hash H (fst v) (snd v)) (v2 # vs))"
    by (simp add: one fold_combine_foldl Let_def del: HashFunction.simps(2))
  with one show ?thesis by simp
qed

text \<open>
  C7. The call \<^verbatim>\<open>HashFunction()\<close> without arguments returns the constant 0, whatever the
  host.
\<close>

theorem HashFunction_no_arguments: "HashFunction H [] = 0"
  by simp

section \<open>The consistency law\<close>

lemma OrderedSequenceHash_map:
  "OrderedSequenceHash H hasher input = OrderedSequenceHash H (\<lambda>h. h) (map hasher input)"
  by (simp add: OrderedSequenceHash_def fold_map comp_def)

lemma list_all2_map_eq:
  "list_all2 (\<lambda>x y. f x = f y) xs ys \<Longrightarrow> map f xs = map f ys"
  by (induction xs ys rule: list_all2_induct) simp_all

lemma OrderedSequenceHash_cong:
  assumes "list_all2 (\<lambda>x y. hasher x = hasher y) xs ys"
  shows "OrderedSequenceHash H hasher xs = OrderedSequenceHash H hasher ys"
proof -
  have "map hasher xs = map hasher ys"
    using assms by (rule list_all2_map_eq)
  then show ?thesis
    by (simp add: OrderedSequenceHash_map [of H hasher])
qed

lemma OrderedMapHash_cong:
  assumes "list_all2 (\<lambda>x y. kh (fst x) = kh (fst y) \<and> kh (c (snd x)) = kh (c (snd y))) xs ys"
  shows "OrderedMapHash H kh vh c xs = OrderedMapHash H kh vh c ys"
proof -
  have "fold (\<lambda>e hash. hash_combine H (hash_combine H hash (kh (fst e))) (kh (c (snd e)))) xs s
      = fold (\<lambda>e hash. hash_combine H (hash_combine H hash (kh (fst e))) (kh (c (snd e)))) ys s"
    for s
    using assms by (induction xs ys arbitrary: s rule: list_all2_induct) simp_all
  then show ?thesis by (simp add: OrderedMapHash_def)
qed

lemma seq_consistent:
  assumes IH: "\<And>a b. val_eq E T a b \<Longrightarrow> hash_impl H T a = hash_impl H T b"
    and eq: "list_all2 (val_eq E T) xs ys"
  shows "OrderedSequenceHash H (hash_impl H T) xs = OrderedSequenceHash H (hash_impl H T) ys"
proof (rule OrderedSequenceHash_cong)
  show "list_all2 (\<lambda>x y. hash_impl H T x = hash_impl H T y) xs ys"
    using eq by (rule list_all2_mono) (rule IH)
qed

lemma hash_impl_consistent:
  assumes host: "hashers_respect H E"
  shows "conversions_respect H E T \<Longrightarrow> val_eq E T a b \<Longrightarrow> hash_impl H T a = hash_impl H T b"
proof (induction T arbitrary: a b)
  case (TPrim n)
  then show ?case
    using host by (auto simp: hashers_respect_def split: val.splits)
next
  case (TEnum n)
  then show ?case by (auto split: val.splits)
next
  case (TClass n)
  then show ?case
    using host by (auto simp: hashers_respect_def split: val.splits option.splits if_splits)
next
  case (TVector T)
  from TVector.prems(2) obtain xs ys where ab: "a = VSeq xs" "b = VSeq ys"
    and eq: "list_all2 (val_eq E T) xs ys"
    by (auto split: val.splits)
  have "val_eq E T x y \<Longrightarrow> hash_impl H T x = hash_impl H T y" for x y
    using TVector.IH TVector.prems(1) by simp
  then have "OrderedSequenceHash H (hash_impl H T) xs = OrderedSequenceHash H (hash_impl H T) ys"
    using eq by (rule seq_consistent)
  then show ?case by (simp add: ab)
next
  case (TList T)
  from TList.prems(2) obtain xs ys where ab: "a = VSeq xs" "b = VSeq ys"
    and eq: "list_all2 (val_eq E T) xs ys"
    by (auto split: val.splits)
  have "val_eq E T x y \<Longrightarrow> hash_impl H T x = hash_impl H T y" for x y
    using TList.IH TList.prems(1) by simp
  then have "OrderedSequenceHash H (hash_impl H T) xs = OrderedSequenceHash H (hash_impl H T) ys"
    using eq by (rule seq_consistent)
  then show ?case by (simp add: ab)
next
  case (TSet T)
  from TSet.prems(2) obtain xs ys where ab: "a = VSeq xs" "b = VSeq ys"
    and eq: "list_all2 (val_eq E T) xs ys"
    by (auto split: val.splits)
  have "val_eq E T x y \<Longrightarrow> hash_impl H T x = hash_impl H T y" for x y
    using TSet.IH TSet.prems(1) by simp
  then have "OrderedSequenceHash H (hash_impl H T) xs = OrderedSequenceHash H (hash_impl H T) ys"
    using eq by (rule seq_consistent)
  then show ?case by (simp add: ab)
next
  case (TMap K V)
  from TMap.prems(2) obtain xs ys where ab: "a = VMap xs" "b = VMap ys"
    and eq: "list_all2 (\<lambda>x y. val_eq E K (fst x) (fst y) \<and> val_eq E V (snd x) (snd y)) xs ys"
    by (auto split: val.splits)
  from TMap.prems(1) have K: "conversions_respect H E K"
    and conv: "V = K \<or> (\<forall>x y. val_eq E V x y \<longrightarrow> val_eq E K (convert H V K x) (convert H V K y))"
    by simp_all
  have hK: "val_eq E K x y \<Longrightarrow> hash_impl H K x = hash_impl H K y" for x y
    using TMap.IH(1) K by blast
  let ?c = "if V = K then (\<lambda>v. v) else convert H V K"
  have cK: "val_eq E V x y \<Longrightarrow> val_eq E K (?c x) (?c y)" for x y
    using conv by auto
  have "list_all2 (\<lambda>x y. hash_impl H K (fst x) = hash_impl H K (fst y) \<and>
          hash_impl H K (?c (snd x)) = hash_impl H K (?c (snd y))) xs ys"
    using eq by (rule list_all2_mono) (use hK cK in blast)
  then have "OrderedMapHash H (hash_impl H K) (hash_impl H V) ?c xs
           = OrderedMapHash H (hash_impl H K) (hash_impl H V) ?c ys"
    by (rule OrderedMapHash_cong)
  then show ?case by (simp add: ab)
next
  case (TPair T1 T2)
  then show ?case
    by (auto simp: PairHash_def split: val.splits)
next
  case (TTuple Ts)
  from TTuple.prems(2) obtain xs ys where ab: "a = VTuple xs" "b = VTuple ys"
    and len: "length xs = length Ts" "length ys = length Ts"
    and eq: "list_all (\<lambda>(eq, x, y). eq x y) (zip (map (val_eq E) Ts) (zip xs ys))"
    by (auto split: val.splits)
  have "map (\<lambda>(hasher, x). hasher x) (zip (map (hash_impl H) Ts) xs)
      = map (\<lambda>(hasher, x). hasher x) (zip (map (hash_impl H) Ts) ys)"
  proof (rule nth_equalityI)
    show "length (map (\<lambda>(hasher, x). hasher x) (zip (map (hash_impl H) Ts) xs))
        = length (map (\<lambda>(hasher, x). hasher x) (zip (map (hash_impl H) Ts) ys))"
      using len by simp
  next
    fix i
    assume "i < length (map (\<lambda>(hasher, x). hasher x) (zip (map (hash_impl H) Ts) xs))"
    then have i: "i < length Ts"
      using len by simp
    then have mem: "Ts ! i \<in> set Ts"
      by simp
    have "val_eq E (Ts ! i) (xs ! i) (ys ! i)"
      using eq i len by (simp add: list_all_length)
    moreover have "conversions_respect H E (Ts ! i)"
      using TTuple.prems(1) i by (simp add: list_all_length)
    ultimately have "hash_impl H (Ts ! i) (xs ! i) = hash_impl H (Ts ! i) (ys ! i)"
      using TTuple.IH mem by blast
    then show "map (\<lambda>(hasher, x). hasher x) (zip (map (hash_impl H) Ts) xs) ! i
             = map (\<lambda>(hasher, x). hasher x) (zip (map (hash_impl H) Ts) ys) ! i"
      using i len by simp
  qed
  then show ?case
    by (simp add: ab TupleHash_def TupleHashImplHelper_def)
qed

text \<open>
  The law holds at every type whose map types convert mapped values to keys in a way
  that keeps equal values equal: in particular at every type without a map, and with
  maps whose mapped type is the key type.
\<close>

lemma consistency_where_conversions_respect:
  assumes "hashers_respect H E" and "conversions_respect H E T" and "val_eq E T a b"
  shows "quick_hash H T a = quick_hash H T b"
  unfolding quick_hash_def using assms by (rule hash_impl_consistent)

lemma example_host_hashers_respect: "hashers_respect example_host example_equality"
  by (auto simp: hashers_respect_def example_host_def example_equality_def split: if_splits)

text \<open>
  Two values that differ as data and are equal by \<^verbatim>\<open>operator==\<close>: a pair of a list of
  \<^verbatim>\<open>Entry\<close> objects, equal in their first fields, and a \<^verbatim>\<open>std::map<bool, int>\<close>.
\<close>

lemma consistency_Entry_list:
  "quick_hash example_host
       (TPair (TList (TClass ''Entry'')) (TMap (TPrim ''bool'') (TPrim ''int'')))
       (VPair (VSeq [VObj (1, 10), VObj (2, 20)]) (VMap [(VPrim 1, VPrim 2)]))
     = quick_hash example_host
       (TPair (TList (TClass ''Entry'')) (TMap (TPrim ''bool'') (TPrim ''int'')))
       (VPair (VSeq [VObj (1, 11), VObj (2, 22)]) (VMap [(VPrim 1, VPrim 2)]))"
proof -
  have conv: "val_eq example_equality (TPrim ''bool'')
      (convert example_host (TPrim ''int'') (TPrim ''bool'') x)
      (convert example_host (TPrim ''int'') (TPrim ''bool'') y)"
    if "val_eq example_equality (TPrim ''int'') x y" for x y
    using that
    by (cases x; cases y) (simp_all add: example_host_def example_equality_def)
  have c: "conversions_respect example_host example_equality
      (TPair (TList (TClass ''Entry'')) (TMap (TPrim ''bool'') (TPrim ''int'')))"
    using conv by simp
  have e: "val_eq example_equality
      (TPair (TList (TClass ''Entry'')) (TMap (TPrim ''bool'') (TPrim ''int'')))
      (VPair (VSeq [VObj (1, 10), VObj (2, 20)]) (VMap [(VPrim 1, VPrim 2)]))
      (VPair (VSeq [VObj (1, 11), VObj (2, 22)]) (VMap [(VPrim 1, VPrim 2)]))"
    by (simp add: example_equality_def)
  from example_host_hashers_respect c e show ?thesis
    by (rule consistency_where_conversions_respect)
qed

text \<open>
  C5 claims that equal values of any supported type have equal hashes. The two maps
  \<^verbatim>\<open>std::map<int, Entry>{{1, Entry{5, 10}}}\<close> and \<^verbatim>\<open>std::map<int, Entry>{{1, Entry{5, 20}}}\<close>
  are equal: their keys are, and \<^verbatim>\<open>Entry::operator==\<close> compares the first fields. The host
  keeps its side: \<open>example_host_hashers_respect\<close>. The hashes differ, because
  \<^verbatim>\<open>OrderedMapHash\<close> passes each \<^verbatim>\<open>Entry\<close> to \<^verbatim>\<open>hash_impl<int>\<close>, which receives it converted
  to \<^verbatim>\<open>int\<close>, 10 and 20, where \<^verbatim>\<open>hash_impl<Entry>\<close> would return the hash of 5 for both.
\<close>

theorem equal_maps_hash_differently:
  "val_eq example_equality (TMap (TPrim ''int'') (TClass ''Entry''))
     (VMap [(VPrim 1, VObj (5, 10))]) (VMap [(VPrim 1, VObj (5, 20))])
   \<and> quick_hash example_host (TMap (TPrim ''int'') (TClass ''Entry''))
       (VMap [(VPrim 1, VObj (5, 10))]) = 175247769355
   \<and> quick_hash example_host (TMap (TPrim ''int'') (TClass ''Entry''))
       (VMap [(VPrim 1, VObj (5, 20))]) = 175247769345
   \<and> quick_hash example_host (TMap (TPrim ''int'') (TClass ''Entry''))
       (VMap [(VPrim 1, VObj (5, 10))])
     \<noteq> quick_hash example_host (TMap (TPrim ''int'') (TClass ''Entry''))
       (VMap [(VPrim 1, VObj (5, 20))])"
  by (simp add: quick_hash_def OrderedMapHash_def example_host_def example_equality_def
      boost_hash_combine_def)

end
